theory Spec2Isabelle
  imports Main "HOL-Library.Sublist"
begin

section \<open>JavaScript values, exceptions and the network\<close>

text \<open>
  The client of \<^verbatim>\<open>src/index.ts\<close> is a class with four private fields; every method is
  asynchronous and awaits each network call before it goes on, so a method is modelled as
  a function from the client's fields before the call to the outcome of the call, the
  fields after it and the network calls it issued, in order.

  JavaScript strings are Isabelle strings (a string stands for its UTF-8 text; every
  delimiter the code looks for is ASCII). An optional field \<^verbatim>\<open>f?: T\<close> is an
  \<open>option\<close>; \<open>None\<close> is \<^verbatim>\<open>undefined\<close>.
\<close>

text \<open>
  A thrown value is either an \<^verbatim>\<open>Error\<close> that this code creates with
  \<^verbatim>\<open>new Error(message)\<close>, or a value thrown by a library (\<^verbatim>\<open>ofetch\<close>,
  \<^verbatim>\<open>JSON.parse\<close>), known only by the text \<^verbatim>\<open>String(e)\<close> that a template literal
  makes of it.
\<close>

datatype exn = Error string | Thrown string

text \<open>
  Truthiness of an optional string, as \<^verbatim>\<open>if (x)\<close> and \<^verbatim>\<open>x || y\<close> test it: the empty
  string is falsy, as \<^verbatim>\<open>undefined\<close> is. Of the booleans \<^verbatim>\<open>false\<close> is falsy. Numbers are
  modelled on the integers (speed limits, page sizes, list indices); the only falsy integer
  is zero.
\<close>

definition truthy_string :: "string option \<Rightarrow> bool" where
  "truthy_string s = (case s of None \<Rightarrow> False | Some v \<Rightarrow> v \<noteq> [])"

text \<open>A value that is one item or an array of items (\<^verbatim>\<open>T | T[]\<close>).\<close>

datatype 'a one_or_many = One 'a | Many "'a list"

text \<open>\<^verbatim>\<open>array.join(separator)\<close> on an array of strings.\<close>

fun join :: "string \<Rightarrow> string list \<Rightarrow> string" where
  "join sep [] = []"
| "join sep [x] = x"
| "join sep (x # y # ys) = x @ sep @ join sep (y # ys)"

text \<open>The values a response body decodes to.\<close>

datatype json =
    JNull
  | JBool bool
  | JNumber int
  | JString string
  | JArray "json list"
  | JObject "(string \<times> json) list"

subsection \<open>Multipart forms\<close>

text \<open>
  A \<^verbatim>\<open>Blob\<close> is its bytes and its media type. A byte is a \<open>char\<close> (eight bits), so
  the UTF-8 bytes of a string are the string itself.
\<close>

type_synonym byte = char

record Blob =
  blob_bytes :: "byte list"
  blob_type :: string

text \<open>
  An entry of a \<^verbatim>\<open>FormData\<close>: \<^verbatim>\<open>append(name, string)\<close> adds a text field,
  \<^verbatim>\<open>append(name, blob, filename)\<close> a file with that filename.
\<close>

datatype form_value = TextField string | FileField Blob string

type_synonym FormData = "(string \<times> form_value) list"

subsection \<open>Network calls\<close>

datatype body =
    URLSearchParams "(string \<times> string) list"
  | Multipart FormData

text \<open>
  The url and the options \<^verbatim>\<open>method\<close>, \<^verbatim>\<open>headers\<close> and \<^verbatim>\<open>body\<close> that a call of
  \<^verbatim>\<open>ofetch\<close> is given.
\<close>

record http_call =
  url :: string
  http_method :: string
  headers :: "(string \<times> string) list"
  body :: "body option"

text \<open>
  What \<^verbatim>\<open>await ofetch(url, options)\<close> yields when no \<^verbatim>\<open>parseResponse\<close> is given, a
  value of type \<^verbatim>\<open>any\<close>, as far as \<^verbatim>\<open>login\<close> looks at it:
  \<^item> \<^verbatim>\<open>undefined\<close> or \<^verbatim>\<open>null\<close>: reading a property of it throws a \<^verbatim>\<open>TypeError\<close>;
  \<^item> a string: it is compared with \<^verbatim>\<open>'Fails.'\<close> and has no \<^verbatim>\<open>headers\<close> property;
  \<^item> any other value, by its \<^verbatim>\<open>headers\<close> property: none or a nullish one (a number,
    a boolean, an array, a blob, an object without one); a \<^verbatim>\<open>Headers\<close> object, listed by
    the lower-case names of its headers with their values; or anything else, whose
    \<^verbatim>\<open>get\<close> is not a function, so that calling it throws a \<^verbatim>\<open>TypeError\<close>.
\<close>

datatype headers_value = NoHeaders | Headers "(string \<times> string) list" | NotHeaders

datatype fetched = Undefined | Null | Str string | Obj headers_value

text \<open>
  \<^verbatim>\<open>headers.get(name)\<close>: \<^verbatim>\<open>null\<close> when no header has the name, and the values of all
  the headers of that name joined with a comma and a space otherwise.
\<close>

definition Headers_get :: "(string \<times> string) list \<Rightarrow> string \<Rightarrow> string option" where
  "Headers_get hs name =
     (case map snd (filter (\<lambda>kv. fst kv = name) hs) of
        [] \<Rightarrow> None
      | v # vs \<Rightarrow> Some (join '', '' (v # vs)))"

text \<open>
  The environment of a client. \<^verbatim>\<open>ofetch\<close> and \<^verbatim>\<open>JSON.parse\<close> are not code of this
  repository, so they are parameters; \<open>Inl t\<close> is an exception whose text is \<open>t\<close>.
  \<^item> \<open>ofetch_value call\<close>: what \<^verbatim>\<open>ofetch\<close> without \<^verbatim>\<open>parseResponse\<close> resolves to;
  \<^item> \<open>ofetch_text call\<close>: the response text that \<^verbatim>\<open>ofetch\<close> hands to \<^verbatim>\<open>parseResponse\<close>;
  \<^item> \<open>JSON_parse text\<close>: \<^verbatim>\<open>JSON.parse(text)\<close>.
\<close>

record env =
  ofetch_value :: "http_call \<Rightarrow> string + fetched"
  ofetch_text :: "http_call \<Rightarrow> string + string"
  JSON_parse :: "string \<Rightarrow> string + json"

text \<open>
  The library itself, where a property needs more than a parameter. By its documentation
  \<^verbatim>\<open>ofetch(url, options)\<close> resolves to the body of the reply, parsed; the call that
  resolves to the response with its headers is \<^verbatim>\<open>ofetch.raw\<close>. For a reply whose
  content type is a text type, as the replies to \<^verbatim>\<open>auth/login\<close> are, the parsed body is
  the body text. The headers of the reply are no part of it.
\<close>

record http_reply =
  reply_headers :: "(string \<times> string) list"
  reply_text :: string

definition ofetch_resolves_to :: "http_reply \<Rightarrow> fetched" where
  "ofetch_resolves_to reply = Str (reply_text reply)"

text \<open>
  The values that a parsed body can be: \<^verbatim>\<open>undefined\<close> for a reply without a body, a
  text, a blob, or what a JSON text denotes. None of them has a \<^verbatim>\<open>headers\<close> property
  that is a \<^verbatim>\<open>Headers\<close> object.
\<close>

fun parsed_body :: "fetched \<Rightarrow> bool" where
  "parsed_body (Obj (Headers hs)) = False"
| "parsed_body v = True"

section \<open>The client\<close>

record QBittorrentConfig =
  config_baseUrl :: string
  config_username :: "string option"
  config_password :: "string option"

record QBittorrentClient =
  baseUrl :: string
  username :: "string option"
  password :: "string option"
  sid :: "string option"

text \<open>The outcome of a method: what it returns or throws, the client after it, its calls.\<close>

type_synonym 'a outcome = "(exn + 'a) \<times> QBittorrentClient \<times> http_call list"

text \<open>\<^verbatim>\<open>baseUrl.replace(/\/$/, '')\<close>: one trailing slash is removed.\<close>

definition strip_trailing_slash :: "string \<Rightarrow> string" where
  "strip_trailing_slash s = (if s \<noteq> [] \<and> last s = CHR ''/'' then butlast s else s)"

definition new_QBittorrentClient :: "QBittorrentConfig \<Rightarrow> QBittorrentClient" where
  "new_QBittorrentClient config =
     \<lparr>baseUrl = strip_trailing_slash (config_baseUrl config),
      username = config_username config,
      password = config_password config,
      sid = None\<rparr>"

subsection \<open>login\<close>

text \<open>
  \<^verbatim>\<open>s.match(/SID=([^;]+)/)?.[1]\<close>: the leftmost place where \<^verbatim>\<open>SID=\<close> is followed by at
  least one character other than \<^verbatim>\<open>;\<close>, and there the longest run of such characters.
\<close>

fun match_SID :: "string \<Rightarrow> string option" where
  "match_SID [] = None"
| "match_SID (c # cs) =
     (let tok = takeWhile (\<lambda>x. x \<noteq> CHR '';'') (drop 4 (c # cs))
      in if take 4 (c # cs) = ''SID='' \<and> tok \<noteq> [] then Some tok else match_SID cs)"

text \<open>
  \<^verbatim>\<open>response.headers?.get('set-cookie')?.match(/SID=([^;]+)/)?.[1]\<close>: the token, or
  \<^verbatim>\<open>undefined\<close>, or a \<^verbatim>\<open>TypeError\<close> (\<open>Inl\<close>, with its text abbreviated). Only
  \<^verbatim>\<open>headers\<close> and the result of \<^verbatim>\<open>get\<close> are guarded by \<^verbatim>\<open>?.\<close>: the response
  itself and \<^verbatim>\<open>headers.get\<close> are not.
\<close>

fun extract_sid :: "fetched \<Rightarrow> string + string option" where
  "extract_sid Undefined = Inl ''TypeError: Cannot read properties of undefined''"
| "extract_sid Null = Inl ''TypeError: Cannot read properties of null''"
| "extract_sid (Str s) = Inr None"
| "extract_sid (Obj NoHeaders) = Inr None"
| "extract_sid (Obj NotHeaders) = Inl ''TypeError: response.headers.get is not a function''"
| "extract_sid (Obj (Headers hs)) =
     Inr (case Headers_get hs ''set-cookie'' of None \<Rightarrow> None | Some v \<Rightarrow> match_SID v)"

text \<open>\<^verbatim>\<open>x || ''\<close> on an optional string.\<close>

definition or_empty :: "string option \<Rightarrow> string" where
  "or_empty s = (case s of None \<Rightarrow> [] | Some v \<Rightarrow> v)"

definition login_call :: "QBittorrentClient \<Rightarrow> http_call" where
  "login_call c =
     \<lparr>url = baseUrl c @ ''/api/v2/auth/login'',
      http_method = ''POST'',
      headers = [(''Content-Type'', ''application/x-www-form-urlencoded'')],
      body = Some (URLSearchParams
        [(''username'', or_empty (username c)), (''password'', or_empty (password c))])\<rparr>"

text \<open>
  \<^verbatim>\<open>login\<close> has no \<^verbatim>\<open>try\<close>: what \<^verbatim>\<open>ofetch\<close> throws leaves it as it is, and so
  does a \<^verbatim>\<open>TypeError\<close> of the extraction, which is thrown before \<^verbatim>\<open>this.sid\<close> is
  assigned. The assignment to \<^verbatim>\<open>this.sid\<close> comes before the test of the extracted
  value. The \<^verbatim>\<open>console.error\<close> before the last \<^verbatim>\<open>throw\<close> writes a diagnostic and
  changes nothing.
\<close>

definition login :: "env \<Rightarrow> QBittorrentClient \<Rightarrow> unit outcome" where
  "login e c =
     (case ofetch_value e (login_call c) of
        Inl t \<Rightarrow> (Inl (Thrown t), c, [login_call c])
      | Inr response \<Rightarrow>
          if response = Str ''Fails.'' then (Inl (Error ''Login failed''), c, [login_call c])
          else
            (case extract_sid response of
               Inl t \<Rightarrow> (Inl (Thrown t), c, [login_call c])
             | Inr token \<Rightarrow>
                 let c' = c\<lparr>sid := token\<rparr>
                 in if \<not> truthy_string (sid c')
                    then (Inl (Error ''Failed to extract session ID (SID).''), c',
                          [login_call c])
                    else (Inr (), c', [login_call c])))"

subsection \<open>request\<close>

text \<open>
  \<^verbatim>\<open>parseResponse: (txt) => txt === 'Ok.' ? true : JSON.parse(txt)\<close>, with
  \<^verbatim>\<open>JSON.parse\<close> as a parameter.
\<close>

definition parseResponse :: "(string \<Rightarrow> string + json) \<Rightarrow> string \<Rightarrow> string + json" where
  "parseResponse parse txt = (if txt = ''Ok.'' then Inr (JBool True) else parse txt)"

text \<open>The \<^verbatim>\<open>Cookie\<close> header, set when \<^verbatim>\<open>this.sid\<close> is truthy.\<close>

definition cookie_headers :: "string option \<Rightarrow> (string \<times> string) list" where
  "cookie_headers s =
     (case s of
        None \<Rightarrow> []
      | Some v \<Rightarrow> if v = [] then [] else [(''Cookie'', ''SID='' @ v)])"

definition request_call :: "QBittorrentClient \<Rightarrow> string \<Rightarrow> string \<Rightarrow> body option \<Rightarrow> http_call" where
  "request_call c meth endpoint data =
     \<lparr>url = baseUrl c @ ''/api/v2/'' @ endpoint,
      http_method = meth,
      headers = cookie_headers (sid c),
      body = data\<rparr>"

text \<open>
  The call and the decoding of its response, inside the \<^verbatim>\<open>try\<close> of \<^verbatim>\<open>request\<close>:
  \<^verbatim>\<open>parseResponse\<close> runs inside \<^verbatim>\<open>ofetch\<close>, so what it throws is caught as well.
\<close>

definition dispatch :: "env \<Rightarrow> QBittorrentClient \<Rightarrow> http_call \<Rightarrow> json outcome" where
  "dispatch e c call =
     (case ofetch_text e call of
        Inl t \<Rightarrow> (Inl (Error (''Request failed: '' @ t)), c, [call])
      | Inr txt \<Rightarrow>
          (case parseResponse (JSON_parse e) txt of
             Inl t \<Rightarrow> (Inl (Error (''Request failed: '' @ t)), c, [call])
           | Inr v \<Rightarrow> (Inr v, c, [call])))"

text \<open>\<^verbatim>\<open>!this.sid && this.username && this.password\<close>\<close>

definition needs_login :: "QBittorrentClient \<Rightarrow> bool" where
  "needs_login c \<longleftrightarrow>
     \<not> truthy_string (sid c) \<and> truthy_string (username c) \<and> truthy_string (password c)"

text \<open>
  \<^verbatim>\<open>request\<close>: the lazy login stands before the \<^verbatim>\<open>try\<close>, so what \<^verbatim>\<open>login\<close> throws
  leaves \<^verbatim>\<open>request\<close> unchanged and no further call is made.
\<close>

definition request :: "env \<Rightarrow> QBittorrentClient \<Rightarrow> string \<Rightarrow> string \<Rightarrow> body option \<Rightarrow> json outcome" where
  "request e c meth endpoint data =
     (if needs_login c then
        (case login e c of
           (Inl x, c1, calls1) \<Rightarrow> (Inl x, c1, calls1)
         | (Inr u, c1, calls1) \<Rightarrow>
             (case dispatch e c1 (request_call c1 meth endpoint data) of
                (r, c2, calls2) \<Rightarrow> (r, c2, calls1 @ calls2)))
      else dispatch e c (request_call c meth endpoint data))"

subsection \<open>logout\<close>

text \<open>\<^verbatim>\<open>await this.request('POST', 'auth/logout'); this.sid = undefined;\<close>\<close>

definition logout :: "env \<Rightarrow> QBittorrentClient \<Rightarrow> unit outcome" where
  "logout e c =
     (case request e c ''POST'' ''auth/logout'' None of
        (Inl x, c1, calls) \<Rightarrow> (Inl x, c1, calls)
      | (Inr v, c1, calls) \<Rightarrow> (Inr (), c1\<lparr>sid := None\<rparr>, calls))"

subsection \<open>Strings of numbers and booleans\<close>

text \<open>
  The decimal text of an array index (\<^verbatim>\<open>`${index}`\<close>) and of an integer
  (\<^verbatim>\<open>n.toString()\<close>). \<open>number_toString\<close> is the text that JavaScript writes for an
  integer below \<open>10\<^sup>2\<^sup>1\<close> in magnitude; from there on JavaScript writes an exponent,
  which this function does not. No property below depends on the digits of a limit.
\<close>

definition digit_char :: "nat \<Rightarrow> char" where
  "digit_char d = ''0123456789'' ! d"

fun show_nat :: "nat \<Rightarrow> string" where
  "show_nat n = (if n < 10 then [digit_char n] else show_nat (n div 10) @ [digit_char (n mod 10)])"

declare show_nat.simps [simp del]

definition number_toString :: "int \<Rightarrow> string" where
  "number_toString i = (if i < 0 then CHR ''-'' # show_nat (nat (- i)) else show_nat (nat i))"

definition boolean_toString :: "bool \<Rightarrow> string" where
  "boolean_toString b = (if b then ''true'' else ''false'')"

subsection \<open>addTorrent\<close>

text \<open>
  The runtime shapes of \<^verbatim>\<open>torrent.buffer\<close> that the code tells apart, in its order: a
  string, a Node \<^verbatim>\<open>Buffer\<close>, an \<^verbatim>\<open>ArrayBuffer\<close>, a \<^verbatim>\<open>SharedArrayBuffer\<close>, and
  any other value.
\<close>

datatype buffer_value =
    StringValue string
  | NodeBuffer "byte list"
  | ArrayBuffer "byte list"
  | SharedArrayBuffer "byte list"
  | OtherValue

record TorrentFile =
  filename :: "string option"
  name :: "string option"
  buffer :: buffer_value
  content_type :: string

record TorrentAddParameters =
  urls :: "string one_or_many option"
  torrents :: "TorrentFile one_or_many option"
  savepath :: "string option"
  category :: "string option"
  paused :: "bool option"
  skip_checking :: "bool option"
  rename :: "string option"
  upLimit :: "int option"
  dlLimit :: "int option"

text \<open>
  \<^verbatim>\<open>new Blob([part], { type })\<close>. A part is a string (its UTF-8 bytes), a buffer or a view
  of one (its bytes), or a blob (its bytes). The type is kept in lower case when all its
  characters are in the range U+0020 to U+007E, and is the empty string otherwise.
\<close>

datatype BlobPart = StringPart string | BufferPart "byte list" | NestedBlob Blob

fun part_bytes :: "BlobPart \<Rightarrow> byte list" where
  "part_bytes (StringPart s) = s"
| "part_bytes (BufferPart bs) = bs"
| "part_bytes (NestedBlob b) = blob_bytes b"

definition printable_ascii :: "char \<Rightarrow> bool" where
  "printable_ascii ch \<longleftrightarrow> 32 \<le> (of_char ch :: nat) \<and> (of_char ch :: nat) \<le> 126"

definition ascii_lowercase :: "char \<Rightarrow> char" where
  "ascii_lowercase ch =
     (case map_of (zip ''ABCDEFGHIJKLMNOPQRSTUVWXYZ'' ''abcdefghijklmnopqrstuvwxyz'') ch of
        None \<Rightarrow> ch
      | Some l \<Rightarrow> l)"

definition normalize_type :: "string \<Rightarrow> string" where
  "normalize_type t = (if list_all printable_ascii t then map ascii_lowercase t else [])"

definition new_Blob :: "BlobPart \<Rightarrow> string \<Rightarrow> Blob" where
  "new_Blob part t = \<lparr>blob_bytes = part_bytes part, blob_type = normalize_type t\<rparr>"

text \<open>
  The chain of tests on \<^verbatim>\<open>torrent.buffer\<close>:
  \<^verbatim>\<open>Uint8Array.from(buffer).buffer\<close> is a fresh \<^verbatim>\<open>ArrayBuffer\<close> with the bytes of the
  Node buffer; a \<^verbatim>\<open>SharedArrayBuffer\<close> is wrapped in a view and a blob of its own.
\<close>

fun to_BlobPart :: "buffer_value \<Rightarrow> string \<Rightarrow> exn + BlobPart" where
  "to_BlobPart (StringValue s) ct = Inr (StringPart s)"
| "to_BlobPart (NodeBuffer bs) ct = Inr (BufferPart bs)"
| "to_BlobPart (ArrayBuffer bs) ct = Inr (BufferPart bs)"
| "to_BlobPart (SharedArrayBuffer bs) ct = Inr (NestedBlob (new_Blob (BufferPart bs) ct))"
| "to_BlobPart OtherValue ct = Inl (Error ''Unsupported buffer type'')"

text \<open>\<^verbatim>\<open>torrent.filename || `torrent_${index}.torrent`\<close>\<close>

definition fallback_filename :: "nat \<Rightarrow> string" where
  "fallback_filename index = ''torrent_'' @ show_nat index @ ''.torrent''"

definition torrent_filename :: "TorrentFile \<Rightarrow> nat \<Rightarrow> string" where
  "torrent_filename t index =
     (case filename t of
        None \<Rightarrow> fallback_filename index
      | Some f \<Rightarrow> if f = [] then fallback_filename index else f)"

text \<open>
  \<^verbatim>\<open>torrents.forEach((torrent, index) => ...)\<close> from \<open>index\<close> on: an exception in the
  callback ends the loop and leaves \<^verbatim>\<open>addTorrent\<close>.
\<close>

fun append_torrents :: "nat \<Rightarrow> TorrentFile list \<Rightarrow> FormData \<Rightarrow> exn + FormData" where
  "append_torrents index [] formData = Inr formData"
| "append_torrents index (t # ts) formData =
     (case to_BlobPart (buffer t) (content_type t) of
        Inl x \<Rightarrow> Inl x
      | Inr part \<Rightarrow>
          append_torrents (Suc index) ts
            (formData @
             [(''torrents'',
               FileField (new_Blob part (content_type t)) (torrent_filename t index))]))"

text \<open>\<^verbatim>\<open>if (params.urls) formData.append('urls', isArray ? urls.join('\n') : urls)\<close>\<close>

definition urls_field :: "string one_or_many option \<Rightarrow> FormData" where
  "urls_field u =
     (case u of
        None \<Rightarrow> []
      | Some (One s) \<Rightarrow> if s = [] then [] else [(''urls'', TextField s)]
      | Some (Many ss) \<Rightarrow> [(''urls'', TextField (join [CHR 0x0A] ss))])"

text \<open>
  \<^verbatim>\<open>if (params.k) formData.append('k', params.k)\<close> for a string, and with
  \<^verbatim>\<open>params.k.toString()\<close> for a boolean and a number.
\<close>

definition string_field :: "string \<Rightarrow> string option \<Rightarrow> FormData" where
  "string_field key v = (if truthy_string v then [(key, TextField (or_empty v))] else [])"

definition boolean_field :: "string \<Rightarrow> bool option \<Rightarrow> FormData" where
  "boolean_field key v =
     (case v of
        None \<Rightarrow> []
      | Some b \<Rightarrow> if b then [(key, TextField (boolean_toString b))] else [])"

definition number_field :: "string \<Rightarrow> int option \<Rightarrow> FormData" where
  "number_field key v =
     (case v of
        None \<Rightarrow> []
      | Some n \<Rightarrow> if n = 0 then [] else [(key, TextField (number_toString n))])"

definition scalar_fields :: "TorrentAddParameters \<Rightarrow> FormData" where
  "scalar_fields p =
     string_field ''savepath'' (savepath p) @
     string_field ''category'' (category p) @
     boolean_field ''paused'' (paused p) @
     boolean_field ''skip_checking'' (skip_checking p) @
     string_field ''rename'' (rename p) @
     number_field ''upLimit'' (upLimit p) @
     number_field ''dlLimit'' (dlLimit p)"

text \<open>
  \<^verbatim>\<open>!params.torrents || (Array.isArray(params.torrents) && params.torrents.length === 0)\<close>
\<close>

definition no_torrents :: "TorrentFile one_or_many option \<Rightarrow> bool" where
  "no_torrents ts =
     (case ts of None \<Rightarrow> True | Some (One t) \<Rightarrow> False | Some (Many l) \<Rightarrow> l = [])"

text \<open>\<^verbatim>\<open>Array.isArray(params.torrents) ? params.torrents : [params.torrents]\<close>\<close>

fun to_array :: "'a one_or_many \<Rightarrow> 'a list" where
  "to_array (One x) = [x]"
| "to_array (Many xs) = xs"

text \<open>The form that \<^verbatim>\<open>addTorrent\<close> builds before it calls \<^verbatim>\<open>request\<close>, or what it throws.\<close>

definition addTorrent_formData :: "TorrentAddParameters \<Rightarrow> exn + FormData" where
  "addTorrent_formData p =
     (if no_torrents (torrents p)
      then Inl (Error ''At least one torrent or URL must be provided.'')
      else
        (case (case torrents p of
                 None \<Rightarrow> Inr (urls_field (urls p))
               | Some ts \<Rightarrow> append_torrents 0 (to_array ts) (urls_field (urls p))) of
           Inl x \<Rightarrow> Inl x
         | Inr formData \<Rightarrow> Inr (formData @ scalar_fields p)))"

definition addTorrent :: "env \<Rightarrow> QBittorrentClient \<Rightarrow> TorrentAddParameters \<Rightarrow> json outcome" where
  "addTorrent e c p =
     (case addTorrent_formData p of
        Inl x \<Rightarrow> (Inl x, c, [])
      | Inr formData \<Rightarrow> request e c ''POST'' ''torrents/add'' (Some (Multipart formData)))"

subsection \<open>getTorrentInfo\<close>

datatype torrent_filter =
  F_all | F_downloading | F_seeding | F_completed | F_paused | F_active | F_inactive

fun filter_string :: "torrent_filter \<Rightarrow> string" where
  "filter_string F_all = ''all''"
| "filter_string F_downloading = ''downloading''"
| "filter_string F_seeding = ''seeding''"
| "filter_string F_completed = ''completed''"
| "filter_string F_paused = ''paused''"
| "filter_string F_active = ''active''"
| "filter_string F_inactive = ''inactive''"

text \<open>
  The fields of \<^verbatim>\<open>TorrentInfoParameters\<close> carry the suffix \<open>_q\<close>: \<open>filter\<close> and
  \<open>sort\<close> are functions on lists, and \<open>category\<close> is a field of
  \<^verbatim>\<open>TorrentAddParameters\<close>.
\<close>

record TorrentInfoParameters =
  filter_q :: "torrent_filter option"
  category_q :: "string option"
  sort_q :: "string option"
  reverse_q :: "bool option"
  limit_q :: "int option"
  offset_q :: "int option"
  hashes_q :: "string one_or_many option"

text \<open>\<^verbatim>\<open>if (params.k) query.append('k', ...)\<close>, in the order of the source.\<close>

definition string_param :: "string \<Rightarrow> string option \<Rightarrow> (string \<times> string) list" where
  "string_param key v = (if truthy_string v then [(key, or_empty v)] else [])"

definition boolean_param :: "string \<Rightarrow> bool option \<Rightarrow> (string \<times> string) list" where
  "boolean_param key v =
     (case v of None \<Rightarrow> [] | Some b \<Rightarrow> if b then [(key, boolean_toString b)] else [])"

definition number_param :: "string \<Rightarrow> int option \<Rightarrow> (string \<times> string) list" where
  "number_param key v =
     (case v of None \<Rightarrow> [] | Some n \<Rightarrow> if n = 0 then [] else [(key, number_toString n)])"

definition hashes_param :: "string one_or_many option \<Rightarrow> (string \<times> string) list" where
  "hashes_param h =
     (case h of
        None \<Rightarrow> []
      | Some (One s) \<Rightarrow> if s = [] then [] else [(''hashes'', s)]
      | Some (Many ss) \<Rightarrow> [(''hashes'', join ''|'' ss)])"

definition getTorrentInfo_query :: "TorrentInfoParameters \<Rightarrow> (string \<times> string) list" where
  "getTorrentInfo_query p =
     string_param ''filter'' (map_option filter_string (filter_q p)) @
     string_param ''category'' (category_q p) @
     string_param ''sort'' (sort_q p) @
     boolean_param ''reverse'' (reverse_q p) @
     number_param ''limit'' (limit_q p) @
     number_param ''offset'' (offset_q p) @
     hashes_param (hashes_q p)"

text \<open>
  \<^verbatim>\<open>query.toString()\<close>: the \<^verbatim>\<open>application/x-www-form-urlencoded\<close> serialisation. A byte
  that is a letter, a digit or one of \<^verbatim>\<open>* - . _\<close> stands for itself, a space becomes
  \<^verbatim>\<open>+\<close>, every other byte becomes \<^verbatim>\<open>%\<close> and two upper-case hexadecimal digits.
\<close>

definition hex_digit :: "nat \<Rightarrow> char" where
  "hex_digit d = ''0123456789ABCDEF'' ! d"

definition urlencoded_safe :: "nat \<Rightarrow> bool" where
  "urlencoded_safe n \<longleftrightarrow>
     n = 42 \<or> n = 45 \<or> n = 46 \<or> n = 95 \<or>
     (48 \<le> n \<and> n \<le> 57) \<or> (65 \<le> n \<and> n \<le> 90) \<or> (97 \<le> n \<and> n \<le> 122)"

definition urlencode_byte :: "char \<Rightarrow> string" where
  "urlencode_byte ch =
     (let n = (of_char ch :: nat)
      in if urlencoded_safe n then [ch]
         else if n = 32 then ''+''
         else [CHR ''%'', hex_digit (n div 16), hex_digit (n mod 16)])"

definition urlencode :: "string \<Rightarrow> string" where
  "urlencode s = concat (map urlencode_byte s)"

definition URLSearchParams_toString :: "(string \<times> string) list \<Rightarrow> string" where
  "URLSearchParams_toString ps =
     join ''&'' (map (\<lambda>(k, v). urlencode k @ ''='' @ urlencode v) ps)"

definition getTorrentInfo :: "env \<Rightarrow> QBittorrentClient \<Rightarrow> TorrentInfoParameters \<Rightarrow> json outcome" where
  "getTorrentInfo e c p =
     request e c ''GET''
       (''torrents/info?'' @ URLSearchParams_toString (getTorrentInfo_query p)) None"

section \<open>Reading forms and queries\<close>

text \<open>
  \<^verbatim>\<open>FormData.getAll(name)\<close> and \<^verbatim>\<open>URLSearchParams.getAll(name)\<close>: the values appended
  under a name, in their order.
\<close>

definition getAll :: "string \<Rightarrow> (string \<times> 'v) list \<Rightarrow> 'v list" where
  "getAll key entries = map snd (filter (\<lambda>kv. fst kv = key) entries)"

text \<open>The bytes that a buffer of one of the four supported shapes holds.\<close>

fun buffer_bytes :: "buffer_value \<Rightarrow> byte list" where
  "buffer_bytes (StringValue s) = s"
| "buffer_bytes (NodeBuffer bs) = bs"
| "buffer_bytes (ArrayBuffer bs) = bs"
| "buffer_bytes (SharedArrayBuffer bs) = bs"
| "buffer_bytes OtherValue = []"

section \<open>Concrete clients and environments\<close>

text \<open>
  \<^verbatim>\<open>JSON.parse\<close> on the three literal names of JSON. Every other text makes this instance
  throw; the message of a \<^verbatim>\<open>SyntaxError\<close> is left to the engine and is abbreviated. The
  theorems below that hold for every environment do not depend on it; the closed ones
  call it on \<^verbatim>\<open>true\<close> and on \<^verbatim>\<open>Fails.\<close> only, where \<^verbatim>\<open>JSON.parse\<close> returns
  \<^verbatim>\<open>true\<close> and throws a \<^verbatim>\<open>SyntaxError\<close>.
\<close>

definition JSON_parse_literal :: "string \<Rightarrow> string + json" where
  "JSON_parse_literal txt =
     (if txt = ''true'' then Inr (JBool True)
      else if txt = ''false'' then Inr (JBool False)
      else if txt = ''null'' then Inr JNull
      else Inl ''SyntaxError: Unexpected token'')"

text \<open>
  A server that answers every login with \<open>v\<close> and every other call with the text
  \<open>txt\<close>, and a network on which every call fails.
\<close>

definition server :: "fetched \<Rightarrow> string \<Rightarrow> env" where
  "server v txt =
     \<lparr>ofetch_value = (\<lambda>call. Inr v),
      ofetch_text = (\<lambda>call. Inr txt),
      JSON_parse = JSON_parse_literal\<rparr>"

definition unreachable :: env where
  "unreachable =
     \<lparr>ofetch_value = (\<lambda>call. Inl ''FetchError: fetch failed''),
      ofetch_text = (\<lambda>call. Inl ''FetchError: fetch failed''),
      JSON_parse = JSON_parse_literal\<rparr>"

text \<open>A server that answers the login and then is gone.\<close>

definition login_only :: "fetched \<Rightarrow> env" where
  "login_only v =
     \<lparr>ofetch_value = (\<lambda>call. Inr v),
      ofetch_text = (\<lambda>call. Inl ''FetchError: fetch failed''),
      JSON_parse = JSON_parse_literal\<rparr>"

text \<open>
  A value with a \<^verbatim>\<open>Headers\<close> object that carries a session cookie, and the reply of a
  server that accepts a login.
\<close>

definition session_cookie :: fetched where
  "session_cookie = Obj (Headers [(''set-cookie'', ''SID=abc123; HttpOnly; path=/'')])"

definition accepted_reply :: http_reply where
  "accepted_reply =
     \<lparr>reply_headers =
        [(''content-type'', ''text/plain; charset=UTF-8''),
         (''set-cookie'', ''SID=abc123; HttpOnly; path=/'')],
      reply_text = ''Ok.''\<rparr>"

definition client0 :: QBittorrentClient where
  "client0 = new_QBittorrentClient
     \<lparr>config_baseUrl = ''http://localhost:8080/'',
      config_username = Some ''admin'',
      config_password = Some ''adminadmin''\<rparr>"

text \<open>The same client while it holds the token \<^verbatim>\<open>old\<close>, and a client without credentials.\<close>

definition client_old :: QBittorrentClient where
  "client_old = client0\<lparr>sid := Some ''old''\<rparr>"

definition anonymous :: QBittorrentClient where
  "anonymous = new_QBittorrentClient
     \<lparr>config_baseUrl = ''http://localhost:8080'',
      config_username = None,
      config_password = None\<rparr>"

text \<open>A torrent file without a filename, and a request that carries nothing else.\<close>

definition unit_of :: "buffer_value \<Rightarrow> TorrentFile" where
  "unit_of v =
     \<lparr>filename = None, name = None, buffer = v, content_type = ''application/x-bittorrent''\<rparr>"

definition add_params ::
  "string one_or_many option \<Rightarrow> TorrentFile one_or_many option \<Rightarrow> TorrentAddParameters" where
  "add_params us ts =
     \<lparr>urls = us, torrents = ts, savepath = None, category = None, paused = None,
      skip_checking = None, rename = None, upLimit = None, dlLimit = None\<rparr>"

definition info_params ::
  "torrent_filter option \<Rightarrow> string one_or_many option \<Rightarrow> TorrentInfoParameters" where
  "info_params f hs =
     \<lparr>filter_q = f, category_q = None, sort_q = None, reverse_q = None, limit_q = None,
      offset_q = None, hashes_q = hs\<rparr>"

section \<open>Properties\<close>

lemmas client_defs =
  client0_def client_old_def anonymous_def new_QBittorrentClient_def strip_trailing_slash_def

lemma show_nat_digits:
  "show_nat 0 = ''0''" "show_nat (Suc 0) = ''1''" "show_nat 1 = ''1''"
  "show_nat 1024 = ''1024''"
  by code_simp+

lemma normalize_type_bittorrent:
  "normalize_type ''application/x-bittorrent'' = ''application/x-bittorrent''"
  by (simp add: normalize_type_def printable_ascii_def ascii_lowercase_def)

lemma normalize_type_lowers:
  "normalize_type ''Application/X-Bittorrent'' = ''application/x-bittorrent''"
  by (simp add: normalize_type_def printable_ascii_def ascii_lowercase_def)

subsection \<open>Session token extraction\<close>

lemma match_SID_nonempty: "match_SID s = Some t \<Longrightarrow> t \<noteq> []"
  by (induction s) (auto simp: Let_def split: if_splits)

lemma extract_sid_nonempty: "extract_sid r = Inr (Some t) \<Longrightarrow> t \<noteq> []"
  by (cases r rule: extract_sid.cases) (auto split: option.splits dest: match_SID_nonempty)

lemma truthy_extract_sid: "extract_sid r = Inr token \<Longrightarrow> truthy_string token \<longleftrightarrow> token \<noteq> None"
  by (cases token) (auto simp: truthy_string_def dest: extract_sid_nonempty)

lemma Headers_get_joins:
  "Headers_get [(''set-cookie'', ''a=1''), (''date'', ''now''), (''set-cookie'', ''SID=x'')]
     ''set-cookie'' = Some ''a=1, SID=x''"
  by (simp add: Headers_get_def)

lemma match_SID_example: "match_SID ''lang=en; SID=abc123; HttpOnly; path=/'' = Some ''abc123''"
  by simp

text \<open>
  The function against the pattern: a match is a run of characters other than \<^verbatim>\<open>;\<close>,
  not empty, that follows \<^verbatim>\<open>SID=\<close> and ends at a \<^verbatim>\<open>;\<close> or at the end of the text; and
  there is no match exactly when every \<^verbatim>\<open>SID=\<close> in the text is followed by \<^verbatim>\<open>;\<close> or by
  nothing.
\<close>

lemma match_SID_Some:
  "match_SID s = Some t \<Longrightarrow>
   \<exists>pre post. s = pre @ ''SID='' @ t @ post \<and> t \<noteq> [] \<and> CHR '';'' \<notin> set t \<and>
     (post = [] \<or> hd post = CHR '';'')"
proof (induction s)
  case Nil
  then show ?case by simp
next
  case (Cons c cs)
  let ?tok = "takeWhile (\<lambda>x. x \<noteq> CHR '';'') (drop 4 (c # cs))"
  show ?case
  proof (cases "take 4 (c # cs) = ''SID='' \<and> ?tok \<noteq> []")
    case True
    with Cons.prems have t: "t = ?tok" by (simp add: Let_def)
    have split: "c # cs = take 4 (c # cs) @ ?tok @ dropWhile (\<lambda>x. x \<noteq> CHR '';'') (drop 4 (c # cs))"
      by (metis append_take_drop_id takeWhile_dropWhile_id)
    have no_semi: "CHR '';'' \<notin> set ?tok"
      by (auto dest: set_takeWhileD)
    have stop: "dropWhile (\<lambda>x. x \<noteq> CHR '';'') (drop 4 (c # cs)) = [] \<or>
        hd (dropWhile (\<lambda>x. x \<noteq> CHR '';'') (drop 4 (c # cs))) = CHR '';''"
      using hd_dropWhile [of "\<lambda>x. x \<noteq> CHR '';''" "drop 4 (c # cs)"] by auto
    from True t split no_semi stop show ?thesis
      by (metis append_Nil)
  next
    case False
    with Cons.prems have "match_SID cs = Some t" by (auto simp: Let_def)
    from Cons.IH [OF this] obtain pre post where
      "cs = pre @ ''SID='' @ t @ post" "t \<noteq> []" "CHR '';'' \<notin> set t"
      "post = [] \<or> hd post = CHR '';''" by blast
    then have "c # cs = (c # pre) @ ''SID='' @ t @ post" by simp
    with \<open>t \<noteq> []\<close> \<open>CHR '';'' \<notin> set t\<close> \<open>post = [] \<or> hd post = CHR '';''\<close>
    show ?thesis by blast
  qed
qed

lemma match_SID_None_iff:
  "match_SID s = None \<longleftrightarrow>
   (\<forall>pre ch post. s = pre @ ''SID='' @ ch # post \<longrightarrow> ch = CHR '';'')"
proof (induction s)
  case Nil
  then show ?case by simp
next
  case (Cons c cs)
  let ?tok = "takeWhile (\<lambda>x. x \<noteq> CHR '';'') (drop 4 (c # cs))"
  define hit where "hit \<longleftrightarrow> take 4 (c # cs) = ''SID='' \<and> ?tok \<noteq> []"
  have "match_SID (c # cs) = (if hit then Some ?tok else match_SID cs)"
    unfolding hit_def by (simp add: Let_def)
  then have step: "match_SID (c # cs) = None \<longleftrightarrow> \<not> hit \<and> match_SID cs = None"
    by simp
  have here: "hit \<longleftrightarrow> (\<exists>ch post. c # cs = ''SID='' @ ch # post \<and> ch \<noteq> CHR '';'')"
  proof
    assume a: hit
    then obtain ch post where d: "drop 4 (c # cs) = ch # post" and "ch \<noteq> CHR '';''"
      unfolding hit_def by (cases "drop 4 (c # cs)") (auto split: if_splits)
    moreover have "c # cs = take 4 (c # cs) @ drop 4 (c # cs)" by simp
    ultimately show "\<exists>ch post. c # cs = ''SID='' @ ch # post \<and> ch \<noteq> CHR '';''"
      using a unfolding hit_def by metis
  next
    assume "\<exists>ch post. c # cs = ''SID='' @ ch # post \<and> ch \<noteq> CHR '';''"
    then obtain ch post where e: "c # cs = ''SID='' @ ch # post" and "ch \<noteq> CHR '';''" by blast
    then show hit unfolding hit_def by simp
  qed
  have later: "(\<forall>pre ch post. c # cs = pre @ ''SID='' @ ch # post \<longrightarrow> ch = CHR '';'') \<longleftrightarrow>
     (\<forall>ch post. c # cs = ''SID='' @ ch # post \<longrightarrow> ch = CHR '';'') \<and>
     (\<forall>pre ch post. cs = pre @ ''SID='' @ ch # post \<longrightarrow> ch = CHR '';'')"
    (is "?L \<longleftrightarrow> ?R1 \<and> ?R2")
  proof
    assume l: ?L
    have ?R1 using l [rule_format, of "[]"] by simp
    moreover have ?R2
    proof (intro allI impI)
      fix pre ch post assume "cs = pre @ ''SID='' @ ch # post"
      then have "c # cs = (c # pre) @ ''SID='' @ ch # post" by simp
      with l show "ch = CHR '';''" by blast
    qed
    ultimately show "?R1 \<and> ?R2" ..
  next
    assume r: "?R1 \<and> ?R2"
    show ?L
    proof (intro allI impI)
      fix pre ch post assume e: "c # cs = pre @ ''SID='' @ ch # post"
      show "ch = CHR '';''"
      proof (cases pre)
        case Nil
        with e r show ?thesis by simp
      next
        case (Cons p pre')
        with e have "cs = pre' @ ''SID='' @ ch # post" by simp
        with r show ?thesis by blast
      qed
    qed
  qed
  from step here later Cons.IH show ?case
    by blast
qed


subsection \<open>login\<close>

text \<open>
  C10. Whenever \<^verbatim>\<open>login\<close> throws the token-extraction failure, the client holds no session
  token after the call, even when it held one before: \<^verbatim>\<open>this.sid\<close> is overwritten with
  the failed extraction before the error is thrown.
\<close>

theorem login_extraction_failure_clears_sid:
  "login e c = (Inl (Error ''Failed to extract session ID (SID).''), c', calls) \<Longrightarrow>
   sid c' = None \<and> c' = c\<lparr>sid := None\<rparr>"
  by (auto simp: login_def Let_def truthy_extract_sid split: sum.splits if_splits)

text \<open>
  A client that holds the token \<^verbatim>\<open>old\<close> logs in again and the call yields the body text
  \<^verbatim>\<open>Ok.\<close>, which has no headers: the token is gone.
\<close>

theorem login_extraction_failure_clears_sid_witness:
  "sid client_old = Some ''old'' \<and>
   login (server (Str ''Ok.'') ''Ok.'') client_old =
     (Inl (Error ''Failed to extract session ID (SID).''), client_old\<lparr>sid := None\<rparr>,
      [login_call client_old]) \<and>
   sid (client_old\<lparr>sid := None\<rparr>) = None"
proof -
  have run: "login (server (Str ''Ok.'') ''Ok.'') client_old =
     (Inl (Error ''Failed to extract session ID (SID).''), client_old\<lparr>sid := None\<rparr>,
      [login_call client_old])"
    by (simp add: login_def server_def truthy_string_def)
  from login_extraction_failure_clears_sid [OF run]
  have "sid (client_old\<lparr>sid := None\<rparr>) = None" by (rule conjunct1)
  with run show ?thesis by (simp add: client_old_def)
qed

text \<open>What \<^verbatim>\<open>login\<close> does with each value that its call can yield.\<close>

lemma login_outcomes:
  assumes "ofetch_value e (login_call c) = Inr r"
  shows "login e c =
     (if r = Str ''Fails.'' then (Inl (Error ''Login failed''), c, [login_call c])
      else case extract_sid r of
             Inl t \<Rightarrow> (Inl (Thrown t), c, [login_call c])
           | Inr None \<Rightarrow>
               (Inl (Error ''Failed to extract session ID (SID).''), c\<lparr>sid := None\<rparr>,
                [login_call c])
           | Inr (Some token) \<Rightarrow> (Inr (), c\<lparr>sid := Some token\<rparr>, [login_call c]))"
proof (cases "extract_sid r")
  case (Inl t)
  with assms show ?thesis by (simp add: login_def)
next
  case (Inr token)
  with assms truthy_extract_sid [OF Inr] show ?thesis
    by (cases token) (simp_all add: login_def Let_def)
qed

text \<open>
  \<^verbatim>\<open>login\<close> returns only when its call yields a value whose \<^verbatim>\<open>headers\<close> is a
  \<^verbatim>\<open>Headers\<close> object with a session cookie; it then holds the token of the cookie.
\<close>

lemma login_returns_iff:
  assumes "ofetch_value e (login_call c) = Inr r"
  shows "fst (login e c) = Inr () \<longleftrightarrow>
     (\<exists>hs v token. r = Obj (Headers hs) \<and> Headers_get hs ''set-cookie'' = Some v \<and>
        match_SID v = Some token)"
proof (cases r rule: extract_sid.cases)
  case (6 hs)
  then show ?thesis
    using login_outcomes [OF assms] by (auto split: option.splits)
qed (use login_outcomes [OF assms] in \<open>auto split: if_splits\<close>)

lemma login_with_session_cookie:
  "login (server session_cookie ''Ok.'') client0 =
     (Inr (), client0\<lparr>sid := Some ''abc123''\<rparr>, [login_call client0])"
  by (simp add: login_def server_def session_cookie_def Headers_get_def truthy_string_def)

text \<open>
  What \<^verbatim>\<open>ofetch\<close> resolves to is a parsed body, and on a parsed body \<^verbatim>\<open>login\<close> never
  returns: it throws one of its two errors or a \<^verbatim>\<open>TypeError\<close>, whatever the headers of
  the reply were.
\<close>

lemma login_never_returns_on_parsed_body:
  assumes "ofetch_value e (login_call c) = Inr r" and "parsed_body r"
  shows "fst (login e c) \<noteq> Inr ()"
  using assms login_returns_iff [OF assms(1)] by auto

lemma ofetch_resolves_to_parsed_body: "parsed_body (ofetch_resolves_to reply)"
  by (simp add: ofetch_resolves_to_def)

text \<open>
  A reply without a body: \<^verbatim>\<open>ofetch\<close> resolves to \<^verbatim>\<open>undefined\<close>, \<^verbatim>\<open>login\<close> throws a
  \<^verbatim>\<open>TypeError\<close> and a token that was held is kept.
\<close>

lemma login_on_undefined:
  "login (server Undefined ''Ok.'') client_old =
     (Inl (Thrown ''TypeError: Cannot read properties of undefined''), client_old,
      [login_call client_old])"
  by (simp add: login_def server_def)

text \<open>
  C3. The claim is what the code sets out to do (its comment reads
  \<^verbatim>\<open>Extract SID from response headers\<close>) and does not do: \<^verbatim>\<open>login\<close> reads the headers
  from what \<^verbatim>\<open>ofetch\<close> resolves to, which is the parsed body and has none. The server
  accepts the login, with the body \<^verbatim>\<open>Ok.\<close> and a \<^verbatim>\<open>Set-Cookie\<close> header from which the
  token \<^verbatim>\<open>abc123\<close> can be extracted, so neither (a) nor (b) of the claim holds, and
  \<^verbatim>\<open>login\<close> throws the extraction failure.
\<close>

theorem login_rejects_accepted_login:
  "reply_text accepted_reply \<noteq> ''Fails.'' \<and>
   Headers_get (reply_headers accepted_reply) ''set-cookie'' =
     Some ''SID=abc123; HttpOnly; path=/'' \<and>
   match_SID ''SID=abc123; HttpOnly; path=/'' = Some ''abc123'' \<and>
   login (server (ofetch_resolves_to accepted_reply) ''Ok.'') client0 =
     (Inl (Error ''Failed to extract session ID (SID).''), client0, [login_call client0])"
  by (simp add: accepted_reply_def Headers_get_def ofetch_resolves_to_def login_def server_def
      truthy_string_def client_defs Let_def)

subsection \<open>The response decoder\<close>

text \<open>
  C6, as stated, fails in one direction: the decoder returns \<^verbatim>\<open>true\<close> for the JSON text
  \<^verbatim>\<open>true\<close> as well, which is not the text \<^verbatim>\<open>Ok.\<close>.
\<close>

theorem parseResponse_true_for_json_true:
  "parseResponse JSON_parse_literal ''true'' = Inr (JBool True) \<and> ''true'' \<noteq> ''Ok.''"
  by (simp add: parseResponse_def JSON_parse_literal_def)

text \<open>
  C6, amended. For the text \<^verbatim>\<open>Ok.\<close> the decoder returns \<^verbatim>\<open>true\<close>; for every other text
  it returns or throws what \<^verbatim>\<open>JSON.parse\<close> returns or throws on that text, with no other
  path; so it returns \<^verbatim>\<open>true\<close> exactly when the text is \<^verbatim>\<open>Ok.\<close> or parses to \<^verbatim>\<open>true\<close>.
\<close>

theorem parseResponse_decodes:
  "(txt = ''Ok.'' \<longrightarrow> parseResponse parse txt = Inr (JBool True)) \<and>
   (txt \<noteq> ''Ok.'' \<longrightarrow> parseResponse parse txt = parse txt) \<and>
   (parseResponse parse txt = Inr (JBool True) \<longleftrightarrow>
      txt = ''Ok.'' \<or> parse txt = Inr (JBool True))"
  by (simp add: parseResponse_def)

theorem parseResponse_decodes_witness:
  "parseResponse JSON_parse_literal ''Ok.'' = Inr (JBool True) \<and>
   parseResponse JSON_parse_literal ''Fails.'' = Inl ''SyntaxError: Unexpected token''"
proof -
  have ok: "parseResponse JSON_parse_literal ''Ok.'' = Inr (JBool True)"
    using parseResponse_decodes [of "''Ok.''" JSON_parse_literal] by simp
  have "parseResponse JSON_parse_literal ''Fails.'' = JSON_parse_literal ''Fails.''"
    using parseResponse_decodes [of "''Fails.''" JSON_parse_literal] by simp
  with ok show ?thesis by (simp add: JSON_parse_literal_def)
qed

subsection \<open>request\<close>

lemma dispatch_never_Thrown: "fst (dispatch e c call) \<noteq> Inl (Thrown t)"
  by (simp add: dispatch_def split: sum.splits)

lemma dispatch_calls: "snd (snd (dispatch e c call)) = [call]"
  by (simp add: dispatch_def split: sum.splits)

lemma login_calls: "snd (snd (login e c)) = [login_call c]"
  by (simp add: login_def Let_def split: sum.splits)

lemma request_calls_nonempty: "snd (snd (request e c m ep d)) \<noteq> []"
  using dispatch_calls [of e] login_calls [of e c]
  by (auto simp: request_def split: prod.splits sum.splits)

text \<open>
  The first call of a fresh client logs in and sends the token it was given as the
  \<^verbatim>\<open>Cookie\<close> header of the call.
\<close>

lemma first_request_logs_in:
  "request (server session_cookie ''Ok.'') client0 ''GET'' ''app/version'' None =
     (Inr (JBool True), client0\<lparr>sid := Some ''abc123''\<rparr>,
      [login_call client0,
       \<lparr>url = ''http://localhost:8080/api/v2/app/version'', http_method = ''GET'',
        headers = [(''Cookie'', ''SID=abc123'')], body = None\<rparr>])"
  by (simp add: request_def needs_login_def login_def dispatch_def parseResponse_def
      request_call_def cookie_headers_def server_def session_cookie_def Headers_get_def
      client_defs truthy_string_def)

text \<open>A client without credentials never logs in and sends no \<^verbatim>\<open>Cookie\<close> header.\<close>

lemma anonymous_request:
  "request (server session_cookie ''Ok.'') anonymous ''GET'' ''app/version'' None =
     (Inr (JBool True), anonymous,
      [\<lparr>url = ''http://localhost:8080/api/v2/app/version'', http_method = ''GET'',
        headers = [], body = None\<rparr>])"
  by (simp add: request_def needs_login_def dispatch_def parseResponse_def
      request_call_def cookie_headers_def server_def client_defs truthy_string_def)

text \<open>
  C7, as stated, fails: the first call of a client with credentials logs in before the
  \<^verbatim>\<open>try\<close>, and what \<^verbatim>\<open>ofetch\<close> throws inside \<^verbatim>\<open>login\<close> reaches the caller of
  \<^verbatim>\<open>request\<close> as it is.
\<close>

theorem request_leaks_login_transport_error:
  "request unreachable client0 ''GET'' ''app/version'' None =
     (Inl (Thrown ''FetchError: fetch failed''), client0, [login_call client0])"
  by (simp add: request_def needs_login_def login_def unreachable_def client_defs
      truthy_string_def)

text \<open>
  C7, amended. An exception raised by the HTTP call that \<^verbatim>\<open>request\<close> itself issues is
  caught and thrown again as the error \<^verbatim>\<open>Request failed: <text of the exception>\<close>, both
  when no login precedes the call and when the login before it succeeded; and a library
  exception leaves \<^verbatim>\<open>request\<close> unwrapped only when \<^verbatim>\<open>login\<close> threw it.
\<close>

theorem request_wraps_exceptions_of_its_call:
  "(\<not> needs_login c \<longrightarrow> ofetch_text e (request_call c m ep d) = Inl t \<longrightarrow>
      request e c m ep d =
        (Inl (Error (''Request failed: '' @ t)), c, [request_call c m ep d])) \<and>
   (needs_login c \<longrightarrow> login e c = (Inr (), c1, calls1) \<longrightarrow>
      ofetch_text e (request_call c1 m ep d) = Inl t \<longrightarrow>
      request e c m ep d =
        (Inl (Error (''Request failed: '' @ t)), c1, calls1 @ [request_call c1 m ep d])) \<and>
   (fst (request e c m ep d) = Inl (Thrown t') \<longrightarrow>
      needs_login c \<and> fst (login e c) = Inl (Thrown t'))"
  by (auto simp: request_def dispatch_def dispatch_never_Thrown split: prod.splits sum.splits)

text \<open>
  A client that holds a token, and a fresh client whose login succeeds, each on a network
  that fails the call itself; and the fresh client on a network that fails the login.
\<close>

theorem request_wraps_exceptions_of_its_call_witness:
  "\<not> needs_login client_old \<and>
   ofetch_text unreachable (request_call client_old ''GET'' ''app/version'' None) =
     Inl ''FetchError: fetch failed'' \<and>
   request unreachable client_old ''GET'' ''app/version'' None =
     (Inl (Error ''Request failed: FetchError: fetch failed''), client_old,
      [request_call client_old ''GET'' ''app/version'' None]) \<and>
   needs_login client0 \<and>
   login (login_only session_cookie) client0 =
     (Inr (), client0\<lparr>sid := Some ''abc123''\<rparr>, [login_call client0]) \<and>
   request (login_only session_cookie) client0 ''GET'' ''app/version'' None =
     (Inl (Error ''Request failed: FetchError: fetch failed''),
      client0\<lparr>sid := Some ''abc123''\<rparr>,
      [login_call client0,
       request_call (client0\<lparr>sid := Some ''abc123''\<rparr>) ''GET'' ''app/version'' None]) \<and>
   fst (request unreachable client0 ''GET'' ''app/version'' None) =
     Inl (Thrown ''FetchError: fetch failed'') \<and>
   fst (login unreachable client0) = Inl (Thrown ''FetchError: fetch failed'')"
proof -
  let ?c1 = "client0\<lparr>sid := Some ''abc123''\<rparr>"
  have no_login: "\<not> needs_login client_old"
    by (simp add: needs_login_def client_defs truthy_string_def)
  have fails: "ofetch_text unreachable (request_call client_old ''GET'' ''app/version'' None) =
      Inl ''FetchError: fetch failed''"
    by (simp add: unreachable_def)
  from request_wraps_exceptions_of_its_call
    [of client_old unreachable "''GET''" "''app/version''" None "''FetchError: fetch failed''"]
  have "\<not> needs_login client_old \<longrightarrow>
      ofetch_text unreachable (request_call client_old ''GET'' ''app/version'' None) =
        Inl ''FetchError: fetch failed'' \<longrightarrow>
      request unreachable client_old ''GET'' ''app/version'' None =
        (Inl (Error (''Request failed: '' @ ''FetchError: fetch failed'')), client_old,
         [request_call client_old ''GET'' ''app/version'' None])"
    by (rule conjunct1)
  with no_login fails have first:
    "request unreachable client_old ''GET'' ''app/version'' None =
       (Inl (Error ''Request failed: FetchError: fetch failed''), client_old,
        [request_call client_old ''GET'' ''app/version'' None])"
    by simp
  have login_needed: "needs_login client0"
    by (simp add: needs_login_def client_defs truthy_string_def)
  have logged_in: "login (login_only session_cookie) client0 =
      (Inr (), ?c1, [login_call client0])"
    by (simp add: login_def login_only_def session_cookie_def Headers_get_def
        truthy_string_def)
  have fails': "ofetch_text (login_only session_cookie)
      (request_call ?c1 ''GET'' ''app/version'' None) = Inl ''FetchError: fetch failed''"
    by (simp add: login_only_def)
  from request_wraps_exceptions_of_its_call
    [of client0 "login_only session_cookie" "''GET''" "''app/version''" None
      "''FetchError: fetch failed''" ?c1 "[login_call client0]"]
    login_needed logged_in fails'
  have second: "request (login_only session_cookie) client0 ''GET'' ''app/version'' None =
      (Inl (Error ''Request failed: FetchError: fetch failed''), ?c1,
       [login_call client0, request_call ?c1 ''GET'' ''app/version'' None])"
    by simp
  have leak: "fst (request unreachable client0 ''GET'' ''app/version'' None) =
      Inl (Thrown ''FetchError: fetch failed'')"
    by (simp add: request_def needs_login_def login_def unreachable_def client_defs
        truthy_string_def)
  from request_wraps_exceptions_of_its_call
    [of client0 unreachable "''GET''" "''app/version''" None _ _ _
      "''FetchError: fetch failed''"] leak
  have third: "fst (login unreachable client0) = Inl (Thrown ''FetchError: fetch failed'')"
    by simp
  from no_login fails first login_needed logged_in second leak third show ?thesis
    by simp
qed

subsection \<open>logout\<close>

text \<open>
  C2, as stated, fails: when the server answers the logout call with the body \<^verbatim>\<open>Fails.\<close>,
  which is neither \<^verbatim>\<open>Ok.\<close> nor JSON, \<^verbatim>\<open>request\<close> throws, the assignment after it is
  not reached and the client still holds its token.
\<close>

theorem logout_keeps_sid_when_request_raises:
  "logout (server session_cookie ''Fails.'') client_old =
     (Inl (Error ''Request failed: SyntaxError: Unexpected token''), client_old,
      [request_call client_old ''POST'' ''auth/logout'' None]) \<and>
   sid client_old = Some ''old''"
  by (simp add: logout_def request_def needs_login_def dispatch_def parseResponse_def
      server_def JSON_parse_literal_def client_defs truthy_string_def)

text \<open>
  The same for every environment: when the text that answers the logout call does not
  decode, or the call itself fails, a client that needs no login is left as it was.
\<close>

lemma logout_raises_when_request_raises:
  assumes "\<not> needs_login c"
    and "ofetch_text e (request_call c ''POST'' ''auth/logout'' None) = Inl t \<or>
         (\<exists>txt. ofetch_text e (request_call c ''POST'' ''auth/logout'' None) = Inr txt \<and>
                parseResponse (JSON_parse e) txt = Inl t)"
  shows "logout e c =
    (Inl (Error (''Request failed: '' @ t)), c, [request_call c ''POST'' ''auth/logout'' None])"
  using assms by (auto simp: logout_def request_def dispatch_def)

text \<open>
  C2, amended. After a call to \<^verbatim>\<open>logout\<close> that returns, the client holds no session
  token, whatever the response decoded to; a client that needs no login and whose logout
  call is answered with a text that decodes returns so. \<^verbatim>\<open>logout\<close> throws exactly
  when \<^verbatim>\<open>request\<close> throws: it throws the same error and leaves the client as
  \<^verbatim>\<open>request\<close> left it.
\<close>

theorem logout_clears_sid_on_return:
  "(logout e c = (Inr u, c', calls) \<longrightarrow> sid c' = None) \<and>
   (\<not> needs_login c \<longrightarrow>
      ofetch_text e (request_call c ''POST'' ''auth/logout'' None) = Inr txt \<longrightarrow>
      parseResponse (JSON_parse e) txt = Inr v \<longrightarrow>
      logout e c = (Inr (), c\<lparr>sid := None\<rparr>, [request_call c ''POST'' ''auth/logout'' None])) \<and>
   (logout e c = (Inl x, c', calls) \<longrightarrow>
      request e c ''POST'' ''auth/logout'' None = (Inl x, c', calls)) \<and>
   (request e c ''POST'' ''auth/logout'' None = (Inl x, c', calls) \<longrightarrow>
      logout e c = (Inl x, c', calls))"
  by (auto simp: logout_def request_def dispatch_def split: prod.splits sum.splits)

text \<open>
  A client that holds a token: its logout is answered with \<^verbatim>\<open>Ok.\<close>, and with
  \<^verbatim>\<open>Fails.\<close>.
\<close>

theorem logout_clears_sid_on_return_witness:
  "\<not> needs_login client_old \<and>
   ofetch_text (server session_cookie ''Ok.'')
     (request_call client_old ''POST'' ''auth/logout'' None) = Inr ''Ok.'' \<and>
   parseResponse (JSON_parse (server session_cookie ''Ok.'')) ''Ok.'' = Inr (JBool True) \<and>
   logout (server session_cookie ''Ok.'') client_old =
     (Inr (), client_old\<lparr>sid := None\<rparr>, [request_call client_old ''POST'' ''auth/logout'' None]) \<and>
   sid (client_old\<lparr>sid := None\<rparr>) = None \<and>
   logout (server session_cookie ''Fails.'') client_old =
     (Inl (Error ''Request failed: SyntaxError: Unexpected token''), client_old,
      [request_call client_old ''POST'' ''auth/logout'' None]) \<and>
   request (server session_cookie ''Fails.'') client_old ''POST'' ''auth/logout'' None =
     (Inl (Error ''Request failed: SyntaxError: Unexpected token''), client_old,
      [request_call client_old ''POST'' ''auth/logout'' None])"
proof -
  let ?call = "request_call client_old ''POST'' ''auth/logout'' None"
  have no_login: "\<not> needs_login client_old"
    by (simp add: needs_login_def client_defs truthy_string_def)
  have answer: "ofetch_text (server session_cookie ''Ok.'') ?call = Inr ''Ok.''"
    by (simp add: server_def)
  have decoded: "parseResponse (JSON_parse (server session_cookie ''Ok.'')) ''Ok.'' =
      Inr (JBool True)"
    by (simp add: parseResponse_def)
  from logout_clears_sid_on_return
    [of "server session_cookie ''Ok.''" client_old _ _ _ "''Ok.''" "JBool True"]
    no_login answer decoded
  have returns: "logout (server session_cookie ''Ok.'') client_old =
      (Inr (), client_old\<lparr>sid := None\<rparr>, [?call])"
    by simp
  from logout_clears_sid_on_return
    [of "server session_cookie ''Ok.''" client_old "()" "client_old\<lparr>sid := None\<rparr>" "[?call]"]
    returns
  have cleared: "sid (client_old\<lparr>sid := None\<rparr>) = None"
    by simp
  have raises: "logout (server session_cookie ''Fails.'') client_old =
      (Inl (Error ''Request failed: SyntaxError: Unexpected token''), client_old, [?call])"
    by (simp add: logout_def request_def needs_login_def dispatch_def parseResponse_def
        server_def JSON_parse_literal_def client_defs truthy_string_def)
  from logout_clears_sid_on_return
    [of "server session_cookie ''Fails.''" client_old _ client_old "[?call]" _ _
      "Error ''Request failed: SyntaxError: Unexpected token''"]
    raises
  have same: "request (server session_cookie ''Fails.'') client_old ''POST'' ''auth/logout'' None =
      (Inl (Error ''Request failed: SyntaxError: Unexpected token''), client_old, [?call])"
    by simp
  from no_login answer decoded returns cleared raises same show ?thesis
    by simp
qed

subsection \<open>Forms and queries\<close>

lemma getAll_append [simp]: "getAll k (xs @ ys) = getAll k xs @ getAll k ys"
  by (simp add: getAll_def)

lemma getAll_Nil [simp]: "getAll k [] = []"
  by (simp add: getAll_def)

lemma getAll_Cons [simp]:
  "getAll k ((k', v) # xs) = (if k' = k then v # getAll k xs else getAll k xs)"
  by (simp add: getAll_def)

subsection \<open>addTorrent: the validation\<close>

text \<open>
  C1. The claim is what the error message of \<^verbatim>\<open>addTorrent\<close>, its documentation and the
  usage example of the README say, and the test in the code does not do it: the README's
  request, one URL and no torrent file, is rejected before any network call.
\<close>

theorem addTorrent_rejects_urls_only:
  "addTorrent e c (add_params (Some (One ''magnet:?xt=urn:btih:example'')) None) =
     (Inl (Error ''At least one torrent or URL must be provided.''), c, [])"
  by (simp add: addTorrent_def addTorrent_formData_def no_torrents_def add_params_def)

lemma to_BlobPart_Inl: "to_BlobPart v ct = Inl x \<Longrightarrow> x = Error ''Unsupported buffer type''"
  by (cases v) auto

lemma append_torrents_Inl:
  "append_torrents i ts fd = Inl x \<Longrightarrow> x = Error ''Unsupported buffer type''"
  by (induction ts arbitrary: i fd) (auto split: sum.splits dest: to_BlobPart_Inl)

lemma addTorrent_formData_validation:
  "addTorrent_formData p = Inl (Error ''At least one torrent or URL must be provided.'') \<longleftrightarrow>
     no_torrents (torrents p)"
  by (auto simp: addTorrent_formData_def split: option.splits sum.splits
      dest: append_torrents_Inl)

text \<open>
  What the test does decide: the validation error is thrown, with no network call, exactly
  when \<^verbatim>\<open>torrents\<close> is absent or an empty array, whatever \<^verbatim>\<open>urls\<close> holds.
\<close>

lemma addTorrent_validation_iff:
  "addTorrent e c p =
     (Inl (Error ''At least one torrent or URL must be provided.''), c, []) \<longleftrightarrow>
   no_torrents (torrents p)"
proof
  assume "no_torrents (torrents p)"
  then show "addTorrent e c p =
      (Inl (Error ''At least one torrent or URL must be provided.''), c, [])"
    by (simp add: addTorrent_def addTorrent_formData_def)
next
  assume r: "addTorrent e c p =
      (Inl (Error ''At least one torrent or URL must be provided.''), c, [])"
  show "no_torrents (torrents p)"
  proof (cases "addTorrent_formData p")
    case (Inl x)
    with r have "x = Error ''At least one torrent or URL must be provided.''"
      by (simp add: addTorrent_def)
    with Inl show ?thesis by (simp add: addTorrent_formData_validation)
  next
    case (Inr fd)
    with r have "snd (snd (request e c ''POST'' ''torrents/add'' (Some (Multipart fd)))) = []"
      by (simp add: addTorrent_def)
    with request_calls_nonempty show ?thesis by blast
  qed
qed

subsection \<open>addTorrent: the form\<close>

lemma new_Blob_to_BlobPart:
  "to_BlobPart v ct = Inr part \<Longrightarrow>
   new_Blob part ct = \<lparr>blob_bytes = buffer_bytes v, blob_type = normalize_type ct\<rparr>"
  by (cases v) (auto simp: new_Blob_def)

text \<open>The entry that a unit with a supported buffer becomes at a position.\<close>

lemma append_torrents_Inr:
  "append_torrents i ts fd = Inr fd' \<Longrightarrow>
   fd' = fd @ map (\<lambda>(j, t). (''torrents'',
            FileField \<lparr>blob_bytes = buffer_bytes (buffer t),
                       blob_type = normalize_type (content_type t)\<rparr> (torrent_filename t j)))
          (enumerate i ts)"
proof (induction ts arbitrary: i fd)
  case Nil
  then show ?case by simp
next
  case (Cons t ts)
  from Cons.prems obtain part where
    part: "to_BlobPart (buffer t) (content_type t) = Inr part" and
    rest: "append_torrents (Suc i) ts
             (fd @ [(''torrents'',
                FileField (new_Blob part (content_type t)) (torrent_filename t i))]) = Inr fd'"
    by (auto split: sum.splits)
  from Cons.IH [OF rest] new_Blob_to_BlobPart [OF part] show ?case
    by simp
qed

lemma append_torrents_unsupported:
  "OtherValue \<in> buffer ` set ts \<Longrightarrow>
   append_torrents i ts fd = Inl (Error ''Unsupported buffer type'')"
proof (induction ts arbitrary: i fd)
  case Nil
  then show ?case by simp
next
  case (Cons t ts)
  show ?case
  proof (cases "to_BlobPart (buffer t) (content_type t)")
    case (Inl x)
    then show ?thesis by (auto dest: to_BlobPart_Inl)
  next
    case (Inr part)
    then have "buffer t \<noteq> OtherValue" by auto
    with Cons.prems have "OtherValue \<in> buffer ` set ts" by auto
    with Inr Cons.IH show ?thesis by simp
  qed
qed

lemma getAll_urls_field: "k \<noteq> ''urls'' \<Longrightarrow> getAll k (urls_field u) = []"
  by (auto simp: urls_field_def split: option.splits one_or_many.splits)

lemma getAll_string_field:
  "getAll k (string_field k' v) =
     (case v of None \<Rightarrow> [] | Some s \<Rightarrow> if k = k' \<and> s \<noteq> [] then [TextField s] else [])"
  by (auto simp: string_field_def truthy_string_def or_empty_def split: option.splits)

lemma getAll_boolean_field:
  "getAll k (boolean_field k' v) =
     (case v of None \<Rightarrow> [] | Some b \<Rightarrow> if k = k' \<and> b then [TextField ''true''] else [])"
  by (auto simp: boolean_field_def boolean_toString_def split: option.splits)

lemma getAll_number_field:
  "getAll k (number_field k' v) =
     (case v of
        None \<Rightarrow> []
      | Some n \<Rightarrow> if k = k' \<and> n \<noteq> 0 then [TextField (number_toString n)] else [])"
  by (auto simp: number_field_def split: option.splits)

lemmas getAll_fields = getAll_string_field getAll_boolean_field getAll_number_field

lemma getAll_torrent_entries:
  "getAll k (map (\<lambda>(j, t). (''torrents'', f j t)) xs) =
     (if k = ''torrents'' then map (\<lambda>(j, t). f j t) xs else [])"
  by (induction xs) auto

text \<open>The form of a request that passes the validation and whose buffers are supported.\<close>

lemma addTorrent_formData_Inr:
  assumes "addTorrent_formData p = Inr fd"
  obtains ts where "torrents p = Some ts"
    and "fd = urls_field (urls p) @
          map (\<lambda>(j, t). (''torrents'',
            FileField \<lparr>blob_bytes = buffer_bytes (buffer t),
                       blob_type = normalize_type (content_type t)\<rparr> (torrent_filename t j)))
          (enumerate 0 (to_array ts)) @ scalar_fields p"
proof -
  from assms obtain ts where ts: "torrents p = Some ts"
    by (auto simp: addTorrent_formData_def no_torrents_def split: if_splits option.splits)
  with assms obtain fd' where
    fd': "append_torrents 0 (to_array ts) (urls_field (urls p)) = Inr fd'" and
    fd: "fd = fd' @ scalar_fields p"
    by (auto simp: addTorrent_formData_def split: if_splits sum.splits)
  from append_torrents_Inr [OF fd'] fd ts that show thesis by simp
qed

lemma getAll_scalar_fields_torrents: "getAll ''torrents'' (scalar_fields p) = []"
  by (simp add: scalar_fields_def getAll_fields split: option.splits)

text \<open>
  C4, as stated, fails in the text of the message: the error for a buffer of no supported
  shape reads \<^verbatim>\<open>Unsupported buffer type\<close>, with a capital letter, and that text does not
  contain \<^verbatim>\<open>unsupported buffer type\<close>.
\<close>

theorem unsupported_buffer_message_is_capitalised:
  "addTorrent_formData (add_params None (Some (One (unit_of OtherValue)))) =
     Inl (Error ''Unsupported buffer type'') \<and>
   \<not> sublist ''unsupported buffer type'' ''Unsupported buffer type''"
  by (simp add: addTorrent_formData_def add_params_def unit_of_def no_torrents_def sublist_code)

text \<open>
  C4, amended. A unit whose buffer is a string, a Node buffer, an \<^verbatim>\<open>ArrayBuffer\<close> or a
  \<^verbatim>\<open>SharedArrayBuffer\<close> holding the bytes \<open>bs\<close> becomes the same multipart part in all
  four cases: a file of the bytes \<open>bs\<close> with the declared content type (as \<^verbatim>\<open>Blob\<close>
  keeps it). When any unit of the request has a buffer of another shape, \<^verbatim>\<open>addTorrent\<close>
  throws the error \<^verbatim>\<open>Unsupported buffer type\<close> and makes no network call; the unit is not
  skipped.
\<close>

theorem buffer_shapes_normalised:
  "(v = StringValue bs \<or> v = NodeBuffer bs \<or> v = ArrayBuffer bs \<or> v = SharedArrayBuffer bs \<longrightarrow>
      append_torrents i [t\<lparr>buffer := v\<rparr>] fd =
        Inr (fd @ [(''torrents'',
               FileField \<lparr>blob_bytes = bs, blob_type = normalize_type (content_type t)\<rparr>
                 (torrent_filename t i))])) \<and>
   (torrents p = Some ts \<longrightarrow> OtherValue \<in> buffer ` set (to_array ts) \<longrightarrow>
      addTorrent e c p = (Inl (Error ''Unsupported buffer type''), c, []))"
proof -
  have unsupported: "addTorrent e c p = (Inl (Error ''Unsupported buffer type''), c, [])"
    if "torrents p = Some ts" and "OtherValue \<in> buffer ` set (to_array ts)"
  proof -
    from that(2) have "to_array ts \<noteq> []" by auto
    then have "\<not> no_torrents (Some ts)"
      by (cases ts) (simp_all add: no_torrents_def)
    with that show ?thesis
      by (simp add: addTorrent_def addTorrent_formData_def append_torrents_unsupported)
  qed
  show ?thesis
    using unsupported by (auto simp: new_Blob_def torrent_filename_def)
qed

theorem buffer_shapes_normalised_witness:
  "append_torrents 0 [unit_of (StringValue ''d8:'')] [] =
     Inr [(''torrents'', FileField \<lparr>blob_bytes = ''d8:'', blob_type = ''application/x-bittorrent''\<rparr> ''torrent_0.torrent'')] \<and>
   append_torrents 0 [unit_of (SharedArrayBuffer ''d8:'')] [] =
     Inr [(''torrents'', FileField \<lparr>blob_bytes = ''d8:'', blob_type = ''application/x-bittorrent''\<rparr> ''torrent_0.torrent'')] \<and>
   addTorrent unreachable client0 (add_params None (Some (Many [unit_of (NodeBuffer ''d8:''), unit_of OtherValue]))) =
     (Inl (Error ''Unsupported buffer type''), client0, [])"
proof -
  have ct: "normalize_type ''application/x-bittorrent'' = ''application/x-bittorrent''"
    by (simp add: normalize_type_def printable_ascii_def ascii_lowercase_def)
  have name: "torrent_filename (unit_of v) 0 = ''torrent_0.torrent''" for v
    by (simp add: torrent_filename_def unit_of_def fallback_filename_def show_nat_digits)
  have upd: "(unit_of v')\<lparr>buffer := v\<rparr> = unit_of v" for v v'
    by (simp add: unit_of_def)
  have a: "append_torrents 0 [unit_of (StringValue ''d8:'')] [] =
     Inr [(''torrents'', FileField \<lparr>blob_bytes = ''d8:'', blob_type = ''application/x-bittorrent''\<rparr> ''torrent_0.torrent'')]"
    using buffer_shapes_normalised [of "StringValue ''d8:''" "''d8:''" 0 "unit_of OtherValue" "[]"]
    by (simp add: upd name) (simp add: unit_of_def ct)
  have b: "append_torrents 0 [unit_of (SharedArrayBuffer ''d8:'')] [] =
     Inr [(''torrents'', FileField \<lparr>blob_bytes = ''d8:'', blob_type = ''application/x-bittorrent''\<rparr> ''torrent_0.torrent'')]"
    using buffer_shapes_normalised [of "SharedArrayBuffer ''d8:''" "''d8:''" 0 "unit_of OtherValue" "[]"]
    by (simp add: upd name) (simp add: unit_of_def ct)
  have c: "addTorrent unreachable client0 (add_params None (Some (Many [unit_of (NodeBuffer ''d8:''), unit_of OtherValue]))) =
     (Inl (Error ''Unsupported buffer type''), client0, [])"
    using buffer_shapes_normalised [of _ _ _ _ _
        "add_params None (Some (Many [unit_of (NodeBuffer ''d8:''), unit_of OtherValue]))"
        "Many [unit_of (NodeBuffer ''d8:''), unit_of OtherValue]" unreachable client0]
    by (simp add: add_params_def unit_of_def)
  from a b c show ?thesis by simp
qed


text \<open>
  C9, as stated, fails for a unit whose filename is given as the empty string: \<^verbatim>\<open>||\<close>
  takes the generated name for it.
\<close>

theorem empty_filename_gets_fallback:
  "filename ((unit_of (NodeBuffer ''d8:''))\<lparr>filename := Some ''''\<rparr>) = Some '''' \<and>
   addTorrent_formData
     (add_params None (Some (Many [(unit_of (NodeBuffer ''d8:''))\<lparr>filename := Some ''''\<rparr>]))) =
     Inr [(''torrents'',
           FileField \<lparr>blob_bytes = ''d8:'', blob_type = ''application/x-bittorrent''\<rparr>
             ''torrent_0.torrent'')]"
  by (simp add: addTorrent_formData_def add_params_def unit_of_def no_torrents_def urls_field_def
      scalar_fields_def string_field_def boolean_field_def number_field_def truthy_string_def
      new_Blob_def normalize_type_def printable_ascii_def ascii_lowercase_def
      torrent_filename_def fallback_filename_def show_nat_digits)

text \<open>
  C9, amended. In the form of a request, the units of \<^verbatim>\<open>torrents\<close> become as many fields
  named \<^verbatim>\<open>torrents\<close>, in their order; the field of the unit at the zero-based position
  \<open>i\<close> is a file whose filename is the unit's filename when that is given and not empty,
  and \<^verbatim>\<open>torrent_<i>.torrent\<close> otherwise; the first two generated names are
  \<^verbatim>\<open>torrent_0.torrent\<close> and \<^verbatim>\<open>torrent_1.torrent\<close>.
\<close>

theorem torrent_fields_and_filenames:
  assumes "torrents p = Some ts" and "addTorrent_formData p = Inr fd"
  shows "length (getAll ''torrents'' fd) = length (to_array ts) \<and>
    (\<forall>i < length (to_array ts). \<exists>blob.
       getAll ''torrents'' fd ! i =
         FileField blob
           (case filename (to_array ts ! i) of
              None \<Rightarrow> ''torrent_'' @ show_nat i @ ''.torrent''
            | Some f \<Rightarrow> if f = [] then ''torrent_'' @ show_nat i @ ''.torrent'' else f)) \<and>
    ''torrent_'' @ show_nat 0 @ ''.torrent'' = ''torrent_0.torrent'' \<and>
    ''torrent_'' @ show_nat 1 @ ''.torrent'' = ''torrent_1.torrent''"
proof -
  from assms(2) obtain ts' where ts': "torrents p = Some ts'" and
    fd: "fd = urls_field (urls p) @
          map (\<lambda>(j, t). (''torrents'',
            FileField \<lparr>blob_bytes = buffer_bytes (buffer t),
                       blob_type = normalize_type (content_type t)\<rparr> (torrent_filename t j)))
          (enumerate 0 (to_array ts')) @ scalar_fields p"
    by (rule addTorrent_formData_Inr)
  from ts' assms(1) have [simp]: "ts' = ts" by simp
  have fields: "getAll ''torrents'' fd =
      map (\<lambda>(j, t). FileField \<lparr>blob_bytes = buffer_bytes (buffer t),
                       blob_type = normalize_type (content_type t)\<rparr> (torrent_filename t j))
        (enumerate 0 (to_array ts))"
    by (simp add: fd getAll_urls_field getAll_torrent_entries getAll_scalar_fields_torrents)
  show ?thesis
    by (simp add: fields nth_enumerate_eq torrent_filename_def fallback_filename_def show_nat_digits
        split: option.splits)
qed

text \<open>Two units without filenames.\<close>

theorem torrent_fields_and_filenames_witness:
  "addTorrent_formData
     (add_params None (Some (Many [unit_of (NodeBuffer ''d8:''), unit_of (StringValue ''d9:'')]))) =
     Inr [(''torrents'',
           FileField \<lparr>blob_bytes = ''d8:'', blob_type = ''application/x-bittorrent''\<rparr>
             ''torrent_0.torrent''),
          (''torrents'',
           FileField \<lparr>blob_bytes = ''d9:'', blob_type = ''application/x-bittorrent''\<rparr>
             ''torrent_1.torrent'')] \<and>
   length (getAll ''torrents''
     [(''torrents'',
           FileField \<lparr>blob_bytes = ''d8:'', blob_type = ''application/x-bittorrent''\<rparr>
             ''torrent_0.torrent''),
          (''torrents'',
           FileField \<lparr>blob_bytes = ''d9:'', blob_type = ''application/x-bittorrent''\<rparr>
             ''torrent_1.torrent'')]) = 2"
proof -
  let ?p = "add_params None (Some (Many [unit_of (NodeBuffer ''d8:''), unit_of (StringValue ''d9:'')]))"
  let ?fd = "[(''torrents'',
           FileField \<lparr>blob_bytes = ''d8:'', blob_type = ''application/x-bittorrent''\<rparr>
             ''torrent_0.torrent''),
          (''torrents'',
           FileField \<lparr>blob_bytes = ''d9:'', blob_type = ''application/x-bittorrent''\<rparr>
             ''torrent_1.torrent'')]"
  have given: "torrents ?p = Some (Many [unit_of (NodeBuffer ''d8:''), unit_of (StringValue ''d9:'')])"
    by (simp add: add_params_def)
  have form: "addTorrent_formData ?p = Inr ?fd"
    by (simp add: addTorrent_formData_def add_params_def unit_of_def no_torrents_def urls_field_def
      scalar_fields_def string_field_def boolean_field_def number_field_def truthy_string_def
      new_Blob_def normalize_type_def printable_ascii_def ascii_lowercase_def
      torrent_filename_def fallback_filename_def show_nat_digits)
  from torrent_fields_and_filenames [OF given form]
  have "length (getAll ''torrents'' ?fd) = 2" by simp
  with form show ?thesis by simp
qed

text \<open>
  C5, as stated, fails: \<^verbatim>\<open>paused: false\<close> is present in the request and no field
  \<^verbatim>\<open>paused\<close> is appended, since the code tests the value for truthiness.
\<close>

theorem paused_false_is_omitted:
  "paused ((add_params None (Some (One (unit_of (NodeBuffer ''d8:'')))))\<lparr>paused := Some False\<rparr>) = Some False \<and>
   addTorrent_formData
     ((add_params None (Some (One (unit_of (NodeBuffer ''d8:'')))))\<lparr>paused := Some False\<rparr>) =
     Inr [(''torrents'',
           FileField \<lparr>blob_bytes = ''d8:'', blob_type = ''application/x-bittorrent''\<rparr>
             ''torrent_0.torrent'')]"
  by (simp add: addTorrent_formData_def add_params_def unit_of_def no_torrents_def urls_field_def
      scalar_fields_def string_field_def boolean_field_def number_field_def truthy_string_def
      new_Blob_def normalize_type_def printable_ascii_def ascii_lowercase_def
      torrent_filename_def fallback_filename_def show_nat_digits)

text \<open>
  C5, amended. In the form of a request, each of \<^verbatim>\<open>savepath\<close>, \<^verbatim>\<open>category\<close>,
  \<^verbatim>\<open>paused\<close>, \<^verbatim>\<open>skip_checking\<close>, \<^verbatim>\<open>rename\<close>, \<^verbatim>\<open>upLimit\<close> and \<^verbatim>\<open>dlLimit\<close> has one
  text field with its value as a string when the field is present and truthy (a string that
  is not empty, \<^verbatim>\<open>true\<close>, a number other than zero), and no field at all when it is
  absent or falsy.
\<close>

theorem scalar_fields_when_truthy:
  assumes "addTorrent_formData p = Inr fd"
  shows
    "getAll ''savepath'' fd =
       (case savepath p of None \<Rightarrow> [] | Some s \<Rightarrow> if s = [] then [] else [TextField s]) \<and>
     getAll ''category'' fd =
       (case category p of None \<Rightarrow> [] | Some s \<Rightarrow> if s = [] then [] else [TextField s]) \<and>
     getAll ''paused'' fd =
       (case paused p of None \<Rightarrow> [] | Some b \<Rightarrow> if b then [TextField ''true''] else []) \<and>
     getAll ''skip_checking'' fd =
       (case skip_checking p of None \<Rightarrow> [] | Some b \<Rightarrow> if b then [TextField ''true''] else []) \<and>
     getAll ''rename'' fd =
       (case rename p of None \<Rightarrow> [] | Some s \<Rightarrow> if s = [] then [] else [TextField s]) \<and>
     getAll ''upLimit'' fd =
       (case upLimit p of
          None \<Rightarrow> [] | Some n \<Rightarrow> if n = 0 then [] else [TextField (number_toString n)]) \<and>
     getAll ''dlLimit'' fd =
       (case dlLimit p of
          None \<Rightarrow> [] | Some n \<Rightarrow> if n = 0 then [] else [TextField (number_toString n)])"
proof -
  from assms obtain ts where
    fd: "fd = urls_field (urls p) @
          map (\<lambda>(j, t). (''torrents'',
            FileField \<lparr>blob_bytes = buffer_bytes (buffer t),
                       blob_type = normalize_type (content_type t)\<rparr> (torrent_filename t j)))
          (enumerate 0 (to_array ts)) @ scalar_fields p"
    by (rule addTorrent_formData_Inr)
  have scalar: "getAll k fd = getAll k (scalar_fields p)"
    if "k \<noteq> ''urls''" and "k \<noteq> ''torrents''" for k
    using that by (simp add: fd getAll_urls_field getAll_torrent_entries)
  show ?thesis
    by (simp add: scalar scalar_fields_def getAll_fields split: option.splits)
qed

theorem scalar_fields_when_truthy_witness:
  "addTorrent_formData
     ((add_params None (Some (One (unit_of (NodeBuffer ''d8:'')))))
        \<lparr>savepath := Some ''/data'', paused := Some True, upLimit := Some 0, dlLimit := Some 1024\<rparr>) =
     Inr [(''torrents'',
           FileField \<lparr>blob_bytes = ''d8:'', blob_type = ''application/x-bittorrent''\<rparr>
             ''torrent_0.torrent''),
          (''savepath'', TextField ''/data''),
          (''paused'', TextField ''true''),
          (''dlLimit'', TextField ''1024'')] \<and>
   getAll ''upLimit''
     [(''torrents'',
           FileField \<lparr>blob_bytes = ''d8:'', blob_type = ''application/x-bittorrent''\<rparr>
             ''torrent_0.torrent''),
          (''savepath'', TextField ''/data''),
          (''paused'', TextField ''true''),
          (''dlLimit'', TextField ''1024'')] = []"
proof -
  let ?p = "(add_params None (Some (One (unit_of (NodeBuffer ''d8:'')))))
        \<lparr>savepath := Some ''/data'', paused := Some True, upLimit := Some 0, dlLimit := Some 1024\<rparr>"
  let ?fd = "[(''torrents'',
           FileField \<lparr>blob_bytes = ''d8:'', blob_type = ''application/x-bittorrent''\<rparr>
             ''torrent_0.torrent''),
          (''savepath'', TextField ''/data''),
          (''paused'', TextField ''true''),
          (''dlLimit'', TextField ''1024'')]"
  have form: "addTorrent_formData ?p = Inr ?fd"
    by (simp add: addTorrent_formData_def add_params_def unit_of_def no_torrents_def urls_field_def
      scalar_fields_def string_field_def boolean_field_def number_field_def truthy_string_def
      or_empty_def boolean_toString_def number_toString_def
      new_Blob_def normalize_type_def printable_ascii_def ascii_lowercase_def
      torrent_filename_def fallback_filename_def show_nat_digits)
  from scalar_fields_when_truthy [OF form]
  have "getAll ''upLimit'' ?fd = (case upLimit ?p of
          None \<Rightarrow> [] | Some n \<Rightarrow> if n = 0 then [] else [TextField (number_toString n)])"
    by simp
  then have "getAll ''upLimit'' ?fd = []"
    by (simp add: add_params_def)
  with form show ?thesis by simp
qed


subsection \<open>getTorrentInfo: the query\<close>

lemma getAll_string_param:
  "getAll k (string_param k' v) = (if k = k' \<and> truthy_string v then [or_empty v] else [])"
  by (simp add: string_param_def)

lemma getAll_boolean_param:
  "getAll k (boolean_param k' v) = (if k = k' \<and> v = Some True then [''true''] else [])"
  by (auto simp: boolean_param_def boolean_toString_def split: option.splits)

lemma getAll_number_param:
  "getAll k (number_param k' v) =
     (case v of
        None \<Rightarrow> []
      | Some n \<Rightarrow> if k = k' \<and> n \<noteq> 0 then [number_toString n] else [])"
  by (auto simp: number_param_def split: option.splits)

lemma getAll_hashes_param:
  "getAll k (hashes_param h) =
     (case h of
        None \<Rightarrow> []
      | Some (One s) \<Rightarrow> if k = ''hashes'' \<and> s \<noteq> [] then [s] else []
      | Some (Many ss) \<Rightarrow> if k = ''hashes'' then [join ''|'' ss] else [])"
  by (auto simp: hashes_param_def split: option.splits one_or_many.splits)

lemmas getAll_params =
  getAll_string_param getAll_boolean_param getAll_number_param getAll_hashes_param

text \<open>
  C8. The query of \<^verbatim>\<open>{filter: "downloading", hashes: ["a", "b"]}\<close> is the two parameters
  \<^verbatim>\<open>filter=downloading\<close> and \<^verbatim>\<open>hashes=a|b\<close> and no other; a list of hashes becomes one
  parameter \<^verbatim>\<open>hashes\<close>, its items joined with \<^verbatim>\<open>|\<close>; and a field that is absent has no
  parameter in the query.
\<close>

theorem getTorrentInfo_query_encoding:
  "getTorrentInfo_query (info_params (Some F_downloading) (Some (Many [''a'', ''b'']))) =
     [(''filter'', ''downloading''), (''hashes'', ''a|b'')] \<and>
   (hashes_q p = Some (Many hs) \<longrightarrow>
      getAll ''hashes'' (getTorrentInfo_query p) = [join ''|'' hs]) \<and>
   (filter_q p = None \<longrightarrow> getAll ''filter'' (getTorrentInfo_query p) = []) \<and>
   (category_q p = None \<longrightarrow> getAll ''category'' (getTorrentInfo_query p) = []) \<and>
   (sort_q p = None \<longrightarrow> getAll ''sort'' (getTorrentInfo_query p) = []) \<and>
   (reverse_q p = None \<longrightarrow> getAll ''reverse'' (getTorrentInfo_query p) = []) \<and>
   (limit_q p = None \<longrightarrow> getAll ''limit'' (getTorrentInfo_query p) = []) \<and>
   (offset_q p = None \<longrightarrow> getAll ''offset'' (getTorrentInfo_query p) = []) \<and>
   (hashes_q p = None \<longrightarrow> getAll ''hashes'' (getTorrentInfo_query p) = [])"
proof -
  have example:
    "getTorrentInfo_query (info_params (Some F_downloading) (Some (Many [''a'', ''b'']))) =
       [(''filter'', ''downloading''), (''hashes'', ''a|b'')]"
    by (simp add: getTorrentInfo_query_def info_params_def string_param_def boolean_param_def
        number_param_def hashes_param_def truthy_string_def or_empty_def)
  have fields: "getAll k (getTorrentInfo_query p) =
     getAll k (string_param ''filter'' (map_option filter_string (filter_q p))) @
     getAll k (string_param ''category'' (category_q p)) @
     getAll k (string_param ''sort'' (sort_q p)) @
     getAll k (boolean_param ''reverse'' (reverse_q p)) @
     getAll k (number_param ''limit'' (limit_q p)) @
     getAll k (number_param ''offset'' (offset_q p)) @
     getAll k (hashes_param (hashes_q p))" for k
    by (simp add: getTorrentInfo_query_def)
  show ?thesis
    unfolding fields getAll_params
    using example by (simp add: truthy_string_def split: option.splits one_or_many.splits)
qed

theorem getTorrentInfo_query_encoding_witness:
  "hashes_q (info_params None (Some (Many [''a'', ''b'']))) = Some (Many [''a'', ''b'']) \<and>
   filter_q (info_params None (Some (Many [''a'', ''b'']))) = None \<and>
   getAll ''hashes'' (getTorrentInfo_query (info_params None (Some (Many [''a'', ''b''])))) =
     [''a|b''] \<and>
   getAll ''filter'' (getTorrentInfo_query (info_params None (Some (Many [''a'', ''b''])))) = [] \<and>
   hashes_q (info_params (Some F_seeding) None) = None \<and>
   getAll ''hashes'' (getTorrentInfo_query (info_params (Some F_seeding) None)) = []"
  using getTorrentInfo_query_encoding
    [of "info_params None (Some (Many [''a'', ''b'']))" "[''a'', ''b'']"]
    getTorrentInfo_query_encoding [of "info_params (Some F_seeding) None"]
  by (simp add: info_params_def)

text \<open>In the URL of the call the separator is percent-encoded.\<close>

lemma getTorrentInfo_example_url:
  "URLSearchParams_toString
     (getTorrentInfo_query (info_params (Some F_downloading) (Some (Many [''a'', ''b''])))) =
   ''filter=downloading&hashes=a%7Cb''"
  by (simp add: getTorrentInfo_query_def info_params_def string_param_def boolean_param_def
      number_param_def hashes_param_def truthy_string_def or_empty_def
      URLSearchParams_toString_def urlencode_def urlencode_byte_def urlencoded_safe_def
      hex_digit_def)

end
